theory Spec2Isabelle
  imports Complex_Main
begin

section \<open>JavaScript values used by the tools\<close>

text \<open>
  The arguments of a tool call arrive as a JSON value. A JavaScript number is modelled by
  its real value (JSON has neither NaN nor an infinity); an object is the list of its
  entries, looked up by key.
\<close>

datatype json =
    JNull
  | JBool bool
  | JNumber real
  | JString string
  | JArray "json list"
  | JObject "(string \<times> json) list"

type_synonym string_map = "(string \<times> string) list"

text \<open>
  Two primitives of the language format values inside the emitted code lines: the
  conversion of a number to a string in a template literal, and \<^verbatim>\<open>JSON.stringify\<close>
  on a map of strings. The tools only splice their results into a line, so both are
  parameters of the model.
\<close>

record js_runtime =
  String_of_number :: "real \<Rightarrow> string"
  JSON_stringify :: "string_map \<Rightarrow> string"

text \<open>
  A parameter that may be \<^verbatim>\<open>undefined\<close> is an option. \<^verbatim>\<open>a === b\<close> with a string on the
  left, a template literal's \<^verbatim>\<open>${v}\<close> and the truthiness test \<^verbatim>\<open>if (v)\<close> are written out
  for such a value.
\<close>

fun strict_eq :: "string \<Rightarrow> string option \<Rightarrow> bool" where
  "strict_eq s None = False"
| "strict_eq s (Some t) = (s = t)"

fun template_str :: "string option \<Rightarrow> string" where
  "template_str None = ''undefined''"
| "template_str (Some s) = s"

fun truthy :: "string option \<Rightarrow> bool" where
  "truthy None = False"
| "truthy (Some s) = (s \<noteq> [])"

definition apos :: string where
  "apos = [CHR 0x27]"

section \<open>Schema validation\<close>

text \<open>
  The input schemas are built from the validation library's combinators. A combinator
  takes the path of the value inside the arguments and the value (\<open>None\<close> when the key
  is missing) and returns the parsed value or the issues found; each issue carries its
  code and the path of the offending field. An object schema visits its fields in the
  order of declaration and reports the issues of all of them.
\<close>

datatype issue_code = invalid_type | invalid_enum_value | too_small | too_big

type_synonym issue = "issue_code \<times> string list"

type_synonym 'a parsed = "issue list + 'a"

type_synonym 'a zod = "string list \<Rightarrow> json option \<Rightarrow> 'a parsed"

definition z_string :: "string zod" where
  "z_string path v =
     (case v of Some (JString s) \<Rightarrow> Inr s | _ \<Rightarrow> Inl [(invalid_type, path)])"

definition z_enum :: "string list \<Rightarrow> string zod" where
  "z_enum values path v =
     (case v of
        Some (JString s) \<Rightarrow>
          if s \<in> set values then Inr s else Inl [(invalid_enum_value, path)]
      | _ \<Rightarrow> Inl [(invalid_type, path)])"

definition z_number_min_max :: "real \<Rightarrow> real \<Rightarrow> real zod" where
  "z_number_min_max lo hi path v =
     (case v of
        Some (JNumber x) \<Rightarrow>
          (let issues = (if x < lo then [(too_small, path)] else []) @
                        (if hi < x then [(too_big, path)] else [])
           in if issues = [] then Inr x else Inl issues)
      | _ \<Rightarrow> Inl [(invalid_type, path)])"

definition z_optional :: "'a zod \<Rightarrow> 'a option zod" where
  "z_optional inner path v =
     (case v of None \<Rightarrow> Inr None | Some _ \<Rightarrow> map_sum id Some (inner path v))"

definition z_default :: "json \<Rightarrow> 'a zod \<Rightarrow> 'a zod" where
  "z_default d inner path v =
     (case v of None \<Rightarrow> inner path (Some d) | Some _ \<Rightarrow> inner path v)"

text \<open>Applying a parsed constructor to one more parsed field, keeping every issue.\<close>

fun z_field :: "('a \<Rightarrow> 'b) parsed \<Rightarrow> 'a parsed \<Rightarrow> 'b parsed" where
  "z_field (Inr f) (Inr x) = Inr (f x)"
| "z_field (Inr f) (Inl e) = Inl e"
| "z_field (Inl e) (Inr x) = Inl e"
| "z_field (Inl e) (Inl e') = Inl (e @ e')"

fun issues_of :: "'a parsed \<Rightarrow> issue list" where
  "issues_of (Inl e) = e"
| "issues_of (Inr x) = []"

text \<open>
  A record schema validates the value of every key of the object, each at the path of its
  key, and builds the parsed map from the entries; the library leaves the key
  \<^verbatim>\<open>__proto__\<close> out of the map it builds, its value being validated all the same.
\<close>

fun z_record_entries :: "string list \<Rightarrow> (string \<times> json) list \<Rightarrow> string_map parsed" where
  "z_record_entries path [] = Inr []"
| "z_record_entries path ((k, v) # kvs) =
     z_field
       (z_field (Inr (\<lambda>s rest. if k = ''__proto__'' then rest else (k, s) # rest))
          (z_string (path @ [k]) (Some v)))
       (z_record_entries path kvs)"

definition z_record_string :: "string_map zod" where
  "z_record_string path v =
     (case v of
        Some (JObject kvs) \<Rightarrow> z_record_entries path kvs
      | _ \<Rightarrow> Inl [(invalid_type, path)])"

section \<open>The page\<close>

text \<open>
  The page belongs to the browser driver. Of a request the interceptor reads the method
  only; it answers by one call on the route: \<^verbatim>\<open>fulfill\<close> with status, contentType, body
  and headers, or \<^verbatim>\<open>continue\<close>.
\<close>

record request =
  req_url :: string
  req_method :: string

datatype route_action =
    Fulfill real string string "string_map option"
  | Continue

type_synonym interceptor = "request \<Rightarrow> route_action"

datatype page_call =
    Route string interceptor
  | Unroute string
  | SetExtraHTTPHeaders string_map

text \<open>
  Modelled from the spec: the page is the browser driver's object and its code is not
  among the sources. Following the spec, the page holds a routing table, a map from url
  pattern to the registered interceptor, in which a registration replaces the one of the
  same pattern and a removal deletes the entry of exactly that pattern (removing a
  pattern that has no entry changes nothing and raises no error), and the set of extra
  headers, which a call replaces as a whole.
\<close>

record page =
  routes :: "string \<rightharpoonup> interceptor"
  extraHTTPHeaders :: string_map

fun page_apply :: "page_call \<Rightarrow> page \<Rightarrow> page" where
  "page_apply (Route u h) pg = pg\<lparr>routes := (routes pg)(u \<mapsto> h)\<rparr>"
| "page_apply (Unroute u) pg = pg\<lparr>routes := (routes pg)(u := None)\<rparr>"
| "page_apply (SetExtraHTTPHeaders hs) pg = pg\<lparr>extraHTTPHeaders := hs\<rparr>"

text \<open>The calls a handler issues reach the page in the order they are made.\<close>

definition perform :: "page_call list \<Rightarrow> page \<Rightarrow> page" where
  "perform calls pg = fold page_apply calls pg"

definition intercepted :: "string \<Rightarrow> page \<Rightarrow> bool" where
  "intercepted u pg = (routes pg u \<noteq> None)"

text \<open>
  A handler first takes the page of the current tab from its context; the model of a
  handler starts from there. It gives the calls the handler makes on the page, in order,
  and what the handler returns: the emitted code lines and the two flags.
\<close>

record tool_result =
  code :: "string list"
  captureSnapshot :: bool
  waitForNetwork :: bool

section \<open>browser_mock_api\<close>

text \<open>
  The input schema: url and body are required strings, method is optional and one of
  seven verbs, status is a number from 100 to 599 with default 200, contentType a string
  with default application/json, headers an optional map of strings.
\<close>

definition http_verbs :: "string list" where
  "http_verbs = [''GET'', ''POST'', ''PUT'', ''DELETE'', ''PATCH'', ''HEAD'', ''OPTIONS'']"

record mock_params =
  url :: string
  "method" :: "string option"
  status :: real
  contentType :: string
  body :: string
  headers :: "string_map option"

definition mockApi_inputSchema :: "json \<Rightarrow> mock_params parsed" where
  "mockApi_inputSchema input =
     (case input of
        JObject fs \<Rightarrow>
          z_field (z_field (z_field (z_field (z_field (z_field
            (Inr (\<lambda>u m s c b h.
               \<lparr>url = u, method = m, status = s, contentType = c, body = b, headers = h\<rparr>))
            (z_string [''url''] (map_of fs ''url'')))
            (z_optional (z_enum http_verbs) [''method''] (map_of fs ''method'')))
            (z_default (JNumber 200) (z_number_min_max 100 599) [''status'']
               (map_of fs ''status'')))
            (z_default (JString ''application/json'') z_string [''contentType'']
               (map_of fs ''contentType'')))
            (z_string [''body''] (map_of fs ''body'')))
            (z_optional z_record_string [''headers''] (map_of fs ''headers''))
      | _ \<Rightarrow> Inl [(invalid_type, [])])"

text \<open>
  The handler registers one interceptor for \<^verbatim>\<open>params.url\<close>:
  \<^verbatim>\<open>if (route.request().method() === params.method) route.fulfill({status, contentType, body, headers}) else route.continue()\<close>
  with the four values taken from the parameters. The fifteen emitted lines are built by
  template literals from the same parameters.
\<close>

definition mockApi_interceptor :: "mock_params \<Rightarrow> interceptor" where
  "mockApi_interceptor params req =
     (if strict_eq (req_method req) (method params)
      then Fulfill (status params) (contentType params) (body params) (headers params)
      else Continue)"

definition mockApi_code :: "js_runtime \<Rightarrow> mock_params \<Rightarrow> string list" where
  "mockApi_code js params =
     [ ''// Mock API response for '' @ url params,
       ''await page.route('' @ apos @ url params @ apos @ '', (route, request) => {'',
       ''  if (route.request().method() === '' @ apos @ template_str (method params)
          @ apos @ '') {'',
       ''  route.fulfill({'',
       ''    status: '' @ String_of_number js (status params) @ '','',
       ''    contentType: '' @ apos @ contentType params @ apos @ '','',
       ''    body: '' @ apos @ body params @ apos @ '','',
       ''    headers: {'',
       ''      ...'' @ JSON_stringify js (case headers params of None \<Rightarrow> [] | Some h \<Rightarrow> h)
          @ '','',
       ''    },'',
       ''  });'',
       ''  } else {'',
       ''    route.continue();'',
       ''  }'',
       ''});'' ]"

definition mockApi_handle :: "js_runtime \<Rightarrow> mock_params \<Rightarrow> page_call list \<times> tool_result" where
  "mockApi_handle js params =
     ([Route (url params) (mockApi_interceptor params)],
      \<lparr>code = mockApi_code js params, captureSnapshot = False, waitForNetwork = False\<rparr>)"

section \<open>browser_clear_mock_api\<close>

text \<open>
  The input schema has the single field url, declared \<^verbatim>\<open>z.string()\<close>. The handler reads
  nothing else of its parameters, so it is given the value of \<^verbatim>\<open>params.url\<close>; it calls
  \<^verbatim>\<open>page.unroute(params.url)\<close> under the guard \<^verbatim>\<open>if (params.url)\<close> and emits two lines that
  splice \<^verbatim>\<open>params.url\<close> in, whatever it is.
\<close>

definition clearMockApi_inputSchema :: "json \<Rightarrow> string option parsed" where
  "clearMockApi_inputSchema input =
     (case input of
        JObject fs \<Rightarrow> z_field (Inr Some) (z_string [''url''] (map_of fs ''url''))
      | _ \<Rightarrow> Inl [(invalid_type, [])])"

definition clearMockApi_handle :: "string option \<Rightarrow> page_call list \<times> tool_result" where
  "clearMockApi_handle params_url =
     ((if truthy params_url
       then (case params_url of Some u \<Rightarrow> [Unroute u] | None \<Rightarrow> [])
       else []),
      \<lparr>code = [ ''// Clear Mock API response for '' @ template_str params_url,
                ''await page.unroute('' @ apos @ template_str params_url @ apos @ '');'' ],
       captureSnapshot = False, waitForNetwork = False\<rparr>)"

section \<open>browser_set_headers\<close>

text \<open>
  The input schema has the single field headers, a required map of strings. The handler
  calls \<^verbatim>\<open>page.setExtraHTTPHeaders(params.headers)\<close> and emits two lines.
\<close>

definition setHeaders_inputSchema :: "json \<Rightarrow> string_map parsed" where
  "setHeaders_inputSchema input =
     (case input of
        JObject fs \<Rightarrow> z_field (Inr id) (z_record_string [''headers''] (map_of fs ''headers''))
      | _ \<Rightarrow> Inl [(invalid_type, [])])"

definition setHeaders_handle :: "js_runtime \<Rightarrow> string_map \<Rightarrow> page_call list \<times> tool_result" where
  "setHeaders_handle js params_headers =
     ([SetExtraHTTPHeaders params_headers],
      \<lparr>code = [ ''// Set Extra HTTP Headers'',
                ''await page.setExtraHTTPHeaders('' @ JSON_stringify js params_headers @ '');'' ],
       captureSnapshot = False, waitForNetwork = False\<rparr>)"

section \<open>Dispatch\<close>

text \<open>
  Modelled from the spec: the tool framework (\<^verbatim>\<open>defineTool\<close> and the dispatcher that
  calls a tool) is not among the sources. Following the spec, a call validates the
  arguments against the tool's input schema first; on a validation failure it reports
  the issues and the handler is not run, so the page is left as it was; otherwise the
  handler runs with the parsed parameters and its calls reach the page in order.
\<close>

definition run ::
  "(json \<Rightarrow> 'p parsed) \<Rightarrow> ('p \<Rightarrow> page_call list \<times> tool_result) \<Rightarrow> json \<Rightarrow> page \<Rightarrow>
     (issue list + tool_result) \<times> page" where
  "run inputSchema handle args pg =
     (case inputSchema args of
        Inl issues \<Rightarrow> (Inl issues, pg)
      | Inr params \<Rightarrow>
          (case handle params of (calls, res) \<Rightarrow> (Inr res, perform calls pg)))"

section \<open>The emitted code read as a program\<close>

text \<open>
  The third line emitted by browser_mock_api tests the request's method against a quoted
  literal; the text between the quotes is whatever the template spliced in. This is the
  comparison a reader of the emitted lines sees, to be set against \<open>strict_eq\<close>, the one
  the registered interceptor makes.
\<close>

definition transcript_matches :: "mock_params \<Rightarrow> request \<Rightarrow> bool" where
  "transcript_matches params req = (req_method req = template_str (method params))"

section \<open>Example inputs\<close>

definition js0 :: js_runtime where
  "js0 = \<lparr>String_of_number = (\<lambda>x. ''200''), JSON_stringify = (\<lambda>m. ''{}'')\<rparr>"

definition page0 :: page where
  "page0 = \<lparr>routes = Map.empty, extraHTTPHeaders = [(''X-Old'', ''1'')]\<rparr>"

definition users_rule :: mock_params where
  \<open>users_rule = \<lparr>url = ''/api/users'', method = Some ''GET'', status = 200,
     contentType = ''application/json'', body = ''{"ok":true}'', headers = None\<rparr>\<close>

definition x_rule :: mock_params where
  "x_rule = \<lparr>url = ''/api/x'', method = None, status = 200,
     contentType = ''application/json'', body = ''{}'', headers = None\<rparr>"

definition get_users :: request where
  "get_users = \<lparr>req_url = ''/api/users'', req_method = ''GET''\<rparr>"

definition post_users :: request where
  "post_users = \<lparr>req_url = ''/api/users'', req_method = ''POST''\<rparr>"

definition users_args :: json where
  \<open>users_args = JObject [(''url'', JString ''/api/users''), (''method'', JString ''GET''),
     (''status'', JNumber 200), (''body'', JString ''{"ok":true}'')]\<close>

definition users_down_rule :: mock_params where
  "users_down_rule = \<lparr>url = ''/api/users'', method = Some ''GET'', status = 503,
     contentType = ''text/plain'', body = ''down'', headers = None\<rparr>"

definition users_down_args :: json where
  "users_down_args = JObject [(''url'', JString ''/api/users''), (''method'', JString ''GET''),
     (''status'', JNumber 503), (''contentType'', JString ''text/plain''),
     (''body'', JString ''down'')]"

definition users_page :: page where
  "users_page = \<lparr>routes = [''/api/users'' \<mapsto> mockApi_interceptor users_rule],
     extraHTTPHeaders = []\<rparr>"

definition bad_mock_args :: json where
  "bad_mock_args = JObject [(''url'', JString ''/api/users''), (''method'', JString ''FETCH''),
     (''status'', JNumber 600), (''body'', JString ''x'')]"

section \<open>Facts about validation and dispatch\<close>

lemma issues_of_z_field: "issues_of (z_field f x) = issues_of f @ issues_of x"
  by (cases f; cases x) simp_all

lemma isl_z_field: "isl (z_field f x) = (isl f \<or> isl x)"
  by (cases f; cases x) simp_all

lemma z_field_Inr_iff: "z_field f x = Inr y \<longleftrightarrow> (\<exists>g a. f = Inr g \<and> x = Inr a \<and> y = g a)"
  by (cases f; cases x) auto

lemma status_out_of_range:
  assumes "map_of fs ''status'' = Some (JNumber x)" and "x < 100 \<or> 599 < x"
  shows "z_default (JNumber 200) (z_number_min_max 100 599) [''status''] (map_of fs ''status'')
            = Inl [(if x < 100 then too_small else too_big, [''status''])]"
  using assms by (auto simp: z_default_def z_number_min_max_def)

lemma method_not_a_verb:
  assumes "map_of fs ''method'' = Some (JString s)" and "s \<notin> set http_verbs"
  shows "z_optional (z_enum http_verbs) [''method''] (map_of fs ''method'')
            = Inl [(invalid_enum_value, [''method''])]"
  using assms by (simp add: z_optional_def z_enum_def)

lemma mockApi_inputSchema_status:
  assumes "map_of fs ''status'' = Some (JNumber x)" and "x < 100 \<or> 599 < x"
  shows "isl (mockApi_inputSchema (JObject fs)) \<and>
         (if x < 100 then too_small else too_big, [''status''])
            \<in> set (issues_of (mockApi_inputSchema (JObject fs)))"
  by (simp add: mockApi_inputSchema_def isl_z_field issues_of_z_field
        status_out_of_range [OF assms])

lemma mockApi_inputSchema_method:
  assumes "map_of fs ''method'' = Some (JString s)" and "s \<notin> set http_verbs"
  shows "isl (mockApi_inputSchema (JObject fs)) \<and>
         (invalid_enum_value, [''method''])
            \<in> set (issues_of (mockApi_inputSchema (JObject fs)))"
  by (simp add: mockApi_inputSchema_def isl_z_field issues_of_z_field
        method_not_a_verb [OF assms])

lemma run_invalid:
  "isl (inputSchema args) \<Longrightarrow>
     run inputSchema handle args pg = (Inl (issues_of (inputSchema args)), pg)"
  by (cases "inputSchema args") (simp_all add: run_def)

lemma run_valid:
  "inputSchema args = Inr params \<Longrightarrow>
     run inputSchema handle args pg =
       (Inr (snd (handle params)), perform (fst (handle params)) pg)"
  by (simp add: run_def split: prod.splits)

lemma z_number_min_max_Inr:
  "z_number_min_max lo hi path v = Inr x \<Longrightarrow> v = Some (JNumber x) \<and> lo \<le> x \<and> x \<le> hi"
  by (auto simp: z_number_min_max_def Let_def split: option.splits json.splits if_splits)

lemma z_enum_Inr:
  "z_enum values path v = Inr s \<Longrightarrow> v = Some (JString s) \<and> s \<in> set values"
  by (auto simp: z_enum_def split: option.splits json.splits if_splits)

lemma mockApi_inputSchema_Inr:
  assumes "mockApi_inputSchema input = Inr params"
  obtains fs where "input = JObject fs"
    and "z_string [''url''] (map_of fs ''url'') = Inr (url params)"
    and "z_optional (z_enum http_verbs) [''method''] (map_of fs ''method'') = Inr (method params)"
    and "z_default (JNumber 200) (z_number_min_max 100 599) [''status''] (map_of fs ''status'')
           = Inr (status params)"
    and "z_default (JString ''application/json'') z_string [''contentType'']
           (map_of fs ''contentType'') = Inr (contentType params)"
    and "z_string [''body''] (map_of fs ''body'') = Inr (body params)"
    and "z_optional z_record_string [''headers''] (map_of fs ''headers'') = Inr (headers params)"
proof -
  from assms obtain fs where fs: "input = JObject fs"
    by (cases input) (simp_all add: mockApi_inputSchema_def)
  from assms show thesis
    unfolding fs mockApi_inputSchema_def json.case z_field_Inr_iff
    by (intro that [OF fs]) auto
qed

text \<open>
  What the schema of browser_mock_api lets through: the status of an accepted call lies
  in 100..599 and its method is absent or one of the seven verbs.
\<close>

theorem mockApi_inputSchema_accepted:
  assumes "mockApi_inputSchema input = Inr params"
  shows "100 \<le> status params \<and> status params \<le> 599 \<and>
         (method params = None \<or> (\<exists>m. method params = Some m \<and> m \<in> set http_verbs))"
proof -
  from assms obtain fs where
    m: "z_optional (z_enum http_verbs) [''method''] (map_of fs ''method'') = Inr (method params)"
    and s: "z_default (JNumber 200) (z_number_min_max 100 599) [''status''] (map_of fs ''status'')
           = Inr (status params)"
    by (rule mockApi_inputSchema_Inr)
  from s have "100 \<le> status params \<and> status params \<le> 599"
    by (auto simp: z_default_def split: option.splits dest: z_number_min_max_Inr)
  moreover from m have
    "method params = None \<or> (\<exists>m. method params = Some m \<and> m \<in> set http_verbs)"
    by (cases "map_of fs ''method''"; cases "z_enum http_verbs [''method''] (map_of fs ''method'')")
       (auto simp: z_optional_def dest: z_enum_Inr)
  ultimately show ?thesis by simp
qed

theorem mockApi_inputSchema_accepted_witness:
  "mockApi_inputSchema users_args = Inr users_rule \<and>
   100 \<le> status users_rule \<and> status users_rule \<le> 599 \<and> method users_rule = Some ''GET''"
proof -
  have accepted: "mockApi_inputSchema users_args = Inr users_rule"
    by (simp add: mockApi_inputSchema_def users_args_def users_rule_def z_string_def
          z_optional_def z_enum_def z_default_def z_number_min_max_def http_verbs_def)
  from mockApi_inputSchema_accepted [OF accepted] accepted show ?thesis
    by (simp add: users_rule_def)
qed

text \<open>A call that leaves the method out reaches the handler with the method absent.\<close>

theorem mockApi_inputSchema_method_absent:
  assumes "mockApi_inputSchema (JObject fs) = Inr params" and "map_of fs ''method'' = None"
  shows "method params = None"
proof -
  from assms(1) obtain fs' where "JObject fs = JObject fs'" and
    "z_optional (z_enum http_verbs) [''method''] (map_of fs' ''method'') = Inr (method params)"
    by (rule mockApi_inputSchema_Inr)
  with assms(2) show ?thesis by (simp add: z_optional_def)
qed

theorem mockApi_inputSchema_method_absent_witness:
  "mockApi_inputSchema (JObject [(''url'', JString ''/api/x''), (''body'', JString ''{}'')]) =
     Inr x_rule \<and>
   map_of [(''url'', JString ''/api/x''), (''body'', JString ''{}'')] ''method'' = None \<and>
   method x_rule = None"
proof -
  have accepted:
    "mockApi_inputSchema (JObject [(''url'', JString ''/api/x''), (''body'', JString ''{}'')]) =
       Inr x_rule"
    by (simp add: mockApi_inputSchema_def x_rule_def z_string_def
          z_optional_def z_default_def z_number_min_max_def)
  from mockApi_inputSchema_method_absent [OF accepted] accepted show ?thesis
    by simp
qed

section \<open>The interceptor of browser_mock_api\<close>

text \<open>
  C1: when the method parameter of a browser_mock_api call is absent, the handler installs
  for the url pattern an interceptor whose strict comparison of the request's method with
  the absent parameter fails for every request, so that every request continues and none
  is fulfilled.
\<close>

theorem mockApi_absent_method_always_continues:
  assumes "method params = None"
  shows "fst (mockApi_handle js params) = [Route (url params) (mockApi_interceptor params)] \<and>
         \<not> strict_eq (req_method req) (method params) \<and>
         mockApi_interceptor params req = Continue"
  using assms by (simp add: mockApi_handle_def mockApi_interceptor_def)

theorem mockApi_absent_method_always_continues_witness:
  "method x_rule = None \<and>
   fst (mockApi_handle js0 x_rule) = [Route ''/api/x'' (mockApi_interceptor x_rule)] \<and>
   mockApi_interceptor x_rule get_users = Continue \<and>
   mockApi_interceptor x_rule post_users = Continue"
  using mockApi_absent_method_always_continues [of x_rule js0 get_users]
        mockApi_absent_method_always_continues [of x_rule js0 post_users]
  by (simp add: x_rule_def)

text \<open>
  C2: when the method parameter is given, the installed interceptor fulfills a request
  whose method equals it, with exactly the configured status, contentType, body and
  headers, and lets every other request continue.
\<close>

theorem mockApi_method_equal_fulfills_else_continues:
  assumes "method params = Some m"
  shows "fst (mockApi_handle js params) = [Route (url params) (mockApi_interceptor params)] \<and>
         mockApi_interceptor params req =
           (if req_method req = m
            then Fulfill (status params) (contentType params) (body params) (headers params)
            else Continue)"
  using assms by (simp add: mockApi_handle_def mockApi_interceptor_def)

theorem mockApi_method_equal_fulfills_else_continues_witness:
  \<open>method users_rule = Some ''GET'' \<and>
   mockApi_interceptor users_rule get_users =
     Fulfill 200 ''application/json'' ''{"ok":true}'' None \<and>
   mockApi_interceptor users_rule post_users = Continue\<close>
  using mockApi_method_equal_fulfills_else_continues [of users_rule "''GET''" js0 get_users]
        mockApi_method_equal_fulfills_else_continues [of users_rule "''GET''" js0 post_users]
  by (simp add: users_rule_def get_users_def post_users_def)

section \<open>Validation of browser_mock_api\<close>

text \<open>
  C3: a browser_mock_api call whose status is a number outside 100..599, or whose method
  is a string outside the seven verbs, is rejected by validation with an issue whose path
  names the offending field, and the page is left as it was.
\<close>

theorem mockApi_rejects_before_page:
  assumes "(map_of fs ''status'' = Some (JNumber x) \<and> (x < 100 \<or> 599 < x)) \<or>
           (map_of fs ''method'' = Some (JString s) \<and> s \<notin> set http_verbs)"
  shows "\<exists>issues.
           run mockApi_inputSchema (mockApi_handle js) (JObject fs) pg = (Inl issues, pg) \<and>
           (map_of fs ''status'' = Some (JNumber x) \<and> (x < 100 \<or> 599 < x) \<longrightarrow>
              (if x < 100 then too_small else too_big, [''status'']) \<in> set issues) \<and>
           (map_of fs ''method'' = Some (JString s) \<and> s \<notin> set http_verbs \<longrightarrow>
              (invalid_enum_value, [''method'']) \<in> set issues)"
proof -
  let ?r = "mockApi_inputSchema (JObject fs)"
  from assms have "isl ?r"
    using mockApi_inputSchema_status mockApi_inputSchema_method by blast
  then have "run mockApi_inputSchema (mockApi_handle js) (JObject fs) pg =
      (Inl (issues_of ?r), pg)"
    by (rule run_invalid)
  moreover have "map_of fs ''status'' = Some (JNumber x) \<and> (x < 100 \<or> 599 < x) \<longrightarrow>
      (if x < 100 then too_small else too_big, [''status'']) \<in> set (issues_of ?r)"
    using mockApi_inputSchema_status by blast
  moreover have "map_of fs ''method'' = Some (JString s) \<and> s \<notin> set http_verbs \<longrightarrow>
      (invalid_enum_value, [''method'']) \<in> set (issues_of ?r)"
    using mockApi_inputSchema_method by blast
  ultimately show ?thesis by blast
qed

theorem mockApi_rejects_before_page_witness:
  "\<exists>issues.
      run mockApi_inputSchema (mockApi_handle js0) bad_mock_args page0 = (Inl issues, page0) \<and>
      (too_big, [''status'']) \<in> set issues \<and> (invalid_enum_value, [''method'']) \<in> set issues"
  using mockApi_rejects_before_page [of "[(''url'', JString ''/api/users''),
     (''method'', JString ''FETCH''), (''status'', JNumber 600), (''body'', JString ''x'')]"
     600 "''FETCH''" js0 page0]
  by (simp add: bad_mock_args_def http_verbs_def)

section \<open>browser_clear_mock_api\<close>

text \<open>
  C4: the claim has browser_clear_mock_api accept a call without the url argument. The
  schema declares url as a plain string, so such a call is rejected with an issue at url,
  the handler does not run and no code lines are returned.
\<close>

theorem clearMockApi_omitted_url_rejected:
  "clearMockApi_inputSchema (JObject []) = Inl [(invalid_type, [''url''])] \<and>
   run clearMockApi_inputSchema clearMockApi_handle (JObject []) pg =
     (Inl [(invalid_type, [''url''])], pg)"
  by (simp add: clearMockApi_inputSchema_def z_string_def run_def)

text \<open>
  The handler on its own, given an absent url: it issues no call, the page stays as it
  was, and both emitted lines name the pattern \<open>undefined\<close>.
\<close>

theorem clearMockApi_handle_absent_url:
  "clearMockApi_handle None =
     ([], \<lparr>code = [''// Clear Mock API response for undefined'',
                    ''await page.unroute('' @ apos @ ''undefined'' @ apos @ '');''],
           captureSnapshot = False, waitForNetwork = False\<rparr>) \<and>
   perform (fst (clearMockApi_handle None)) pg = pg"
  by (simp add: clearMockApi_handle_def perform_def)

text \<open>
  C5: clearing a pattern for which the page has no registration leaves the page as it
  was, and the call returns the handler's result, not an error.
\<close>

theorem clearMockApi_unregistered_pattern_noop:
  assumes "\<not> intercepted P pg"
  shows "perform (fst (clearMockApi_handle (Some P))) pg = pg \<and>
         run clearMockApi_inputSchema clearMockApi_handle (JObject [(''url'', JString P)]) pg =
           (Inr (snd (clearMockApi_handle (Some P))), pg)"
proof -
  have unchanged: "perform (fst (clearMockApi_handle (Some P))) pg = pg"
    using assms
    by (simp add: clearMockApi_handle_def perform_def intercepted_def fun_upd_idem)
  have accepted: "clearMockApi_inputSchema (JObject [(''url'', JString P)]) = Inr (Some P)"
    by (simp add: clearMockApi_inputSchema_def z_string_def)
  have "run clearMockApi_inputSchema clearMockApi_handle (JObject [(''url'', JString P)]) pg =
      (Inr (snd (clearMockApi_handle (Some P))),
       perform (fst (clearMockApi_handle (Some P))) pg)"
    using accepted by (rule run_valid)
  with unchanged show ?thesis by simp
qed

theorem clearMockApi_unregistered_pattern_noop_witness:
  "\<not> intercepted ''/api/none'' page0 \<and>
   fst (clearMockApi_handle (Some ''/api/none'')) = [Unroute ''/api/none''] \<and>
   perform (fst (clearMockApi_handle (Some ''/api/none''))) page0 = page0 \<and>
   run clearMockApi_inputSchema clearMockApi_handle (JObject [(''url'', JString ''/api/none'')])
     page0 = (Inr (snd (clearMockApi_handle (Some ''/api/none''))), page0)"
  using clearMockApi_unregistered_pattern_noop [of "''/api/none''" page0]
  by (simp add: intercepted_def page0_def clearMockApi_handle_def)

text \<open>
  C6, as stated, fails in its last part: the round trip does not restore the routing
  table at P when P was mocked before. With /api/users already mocked, registering
  another accepted rule for /api/users and clearing it leaves no entry for /api/users,
  where there was one.
\<close>

theorem mock_then_clear_not_restoring_counterexample:
  "mockApi_inputSchema users_down_args = Inr users_down_rule \<and>
   url users_down_rule = ''/api/users'' \<and>
   routes users_page ''/api/users'' = Some (mockApi_interceptor users_rule) \<and>
   routes
     (perform (fst (clearMockApi_handle (Some ''/api/users'')))
        (perform (fst (mockApi_handle js0 users_down_rule)) users_page))
     ''/api/users'' = None"
  by (simp add: mockApi_inputSchema_def users_down_args_def users_down_rule_def
        z_string_def z_optional_def z_enum_def z_default_def z_number_min_max_def
        http_verbs_def users_page_def clearMockApi_handle_def mockApi_handle_def
        perform_def)

text \<open>
  C6, amended: for every rule whose url P is not empty, registering the mock and then
  clearing P leaves the page with no interception for P; the page afterwards is the page
  before with the entry of P removed, so every other pattern and the extra headers are
  as they were, and the page is the one before exactly when P had no registration
  before.
\<close>

theorem mock_then_clear_nonempty_pattern:
  assumes "P \<noteq> []" and "url params = P"
  shows "\<not> intercepted P
           (perform (fst (clearMockApi_handle (Some P)))
              (perform (fst (mockApi_handle js params)) pg)) \<and>
         perform (fst (clearMockApi_handle (Some P)))
           (perform (fst (mockApi_handle js params)) pg) =
           pg\<lparr>routes := (routes pg)(P := None)\<rparr> \<and>
         (perform (fst (clearMockApi_handle (Some P)))
            (perform (fst (mockApi_handle js params)) pg) = pg) =
           (\<not> intercepted P pg)"
proof -
  let ?after = "perform (fst (clearMockApi_handle (Some P)))
     (perform (fst (mockApi_handle js params)) pg)"
  have after: "?after = pg\<lparr>routes := (routes pg)(P := None)\<rparr>"
    using assms by (simp add: clearMockApi_handle_def mockApi_handle_def perform_def)
  have gone: "\<not> intercepted P ?after"
    by (simp add: after intercepted_def)
  have "(pg\<lparr>routes := (routes pg)(P := None)\<rparr> = pg) = (routes pg P = None)"
  proof
    assume "pg\<lparr>routes := (routes pg)(P := None)\<rparr> = pg"
    then have "routes (pg\<lparr>routes := (routes pg)(P := None)\<rparr>) P = routes pg P"
      by simp
    then show "routes pg P = None" by simp
  next
    assume "routes pg P = None"
    then show "pg\<lparr>routes := (routes pg)(P := None)\<rparr> = pg"
      by (simp add: fun_upd_idem)
  qed
  then have "(?after = pg) = (\<not> intercepted P pg)"
    by (simp add: after intercepted_def)
  with after gone show ?thesis by simp
qed

theorem mock_then_clear_nonempty_pattern_witness:
  "''/api/x'' \<noteq> [] \<and> url x_rule = ''/api/x'' \<and>
   intercepted ''/api/x'' (perform (fst (mockApi_handle js0 x_rule)) page0) \<and>
   \<not> intercepted ''/api/x''
     (perform (fst (clearMockApi_handle (Some ''/api/x'')))
        (perform (fst (mockApi_handle js0 x_rule)) page0)) \<and>
   \<not> intercepted ''/api/x'' page0 \<and>
   perform (fst (clearMockApi_handle (Some ''/api/x'')))
     (perform (fst (mockApi_handle js0 x_rule)) page0) = page0"
  using mock_then_clear_nonempty_pattern [of "''/api/x''" x_rule js0 page0]
  by (simp add: x_rule_def mockApi_handle_def perform_def intercepted_def page0_def)

text \<open>
  With the empty string as url, which both schemas accept, the clear handler emits the
  line that unroutes the empty pattern but makes no call, and a mock registered for the
  empty pattern stays.
\<close>

theorem mock_then_clear_empty_pattern_stays:
  "mockApi_inputSchema (JObject [(''url'', JString []), (''body'', JString ''{}'')]) =
     Inr (x_rule\<lparr>url := []\<rparr>) \<and>
   clearMockApi_inputSchema (JObject [(''url'', JString [])]) = Inr (Some []) \<and>
   code (snd (clearMockApi_handle (Some []))) ! 1 = ''await page.unroute('' @ apos @ apos @ '');'' \<and>
   fst (clearMockApi_handle (Some [])) = [] \<and>
   intercepted []
     (perform (fst (clearMockApi_handle (Some [])))
        (perform (fst (mockApi_handle js0 (x_rule\<lparr>url := []\<rparr>))) page0))"
  by (simp add: mockApi_inputSchema_def clearMockApi_inputSchema_def z_string_def
        z_optional_def z_default_def z_number_min_max_def x_rule_def
        clearMockApi_handle_def mockApi_handle_def perform_def intercepted_def)

text \<open>
  C9: a browser_clear_mock_api call whose url is the empty string passes the schema, but
  the empty string is not truthy, so the handler issues no call at all and the page stays
  as it was.
\<close>

theorem clearMockApi_empty_url_no_unroute:
  assumes "map_of fs ''url'' = Some (JString [])"
  shows "clearMockApi_inputSchema (JObject fs) = Inr (Some []) \<and>
         \<not> truthy (Some []) \<and>
         fst (clearMockApi_handle (Some [])) = [] \<and>
         perform (fst (clearMockApi_handle (Some []))) pg = pg"
  using assms
  by (simp add: clearMockApi_inputSchema_def z_string_def clearMockApi_handle_def perform_def)

theorem clearMockApi_empty_url_no_unroute_witness:
  "clearMockApi_inputSchema (JObject [(''url'', JString [])]) = Inr (Some []) \<and>
   fst (clearMockApi_handle (Some [])) = [] \<and>
   perform (fst (clearMockApi_handle (Some []))) page0 = page0"
  using clearMockApi_empty_url_no_unroute [of "[(''url'', JString [])]" page0]
  by (simp add: perform_def)

section \<open>browser_set_headers\<close>

text \<open>
  C7: browser_set_headers issues one call, with exactly the supplied map; afterwards the
  page's extra headers are that map whatever they were before, the routes are untouched,
  and with the empty map no extra header is left.
\<close>

theorem setHeaders_replaces_extra_headers:
  "fst (setHeaders_handle js hs) = [SetExtraHTTPHeaders hs] \<and>
   extraHTTPHeaders (perform (fst (setHeaders_handle js hs)) pg) = hs \<and>
   routes (perform (fst (setHeaders_handle js hs)) pg) = routes pg \<and>
   extraHTTPHeaders (perform (fst (setHeaders_handle js [])) pg) = []"
  by (simp add: setHeaders_handle_def perform_def)

theorem setHeaders_replaces_extra_headers_witness:
  "extraHTTPHeaders page0 = [(''X-Old'', ''1'')] \<and>
   extraHTTPHeaders (perform (fst (setHeaders_handle js0 [(''Authorization'', ''Bearer t'')])) page0)
     = [(''Authorization'', ''Bearer t'')] \<and>
   extraHTTPHeaders (perform (fst (setHeaders_handle js0 [])) page0) = []"
  using setHeaders_replaces_extra_headers [of js0 "[(''Authorization'', ''Bearer t'')]" page0]
  by (simp add: page0_def setHeaders_handle_def perform_def)

section \<open>Results and emitted code\<close>

text \<open>
  C8: for every parameter value each of the three handlers returns its result: the list
  of code lines, in order, built from the parameters as the handler's template literals
  build them (fifteen lines for browser_mock_api, two for each of the others), together
  with captureSnapshot and waitForNetwork, both false.
\<close>

theorem handlers_return_code_and_false_flags:
  "snd (mockApi_handle js params) =
     \<lparr>code =
        [ ''// Mock API response for '' @ url params,
          ''await page.route('' @ apos @ url params @ apos @ '', (route, request) => {'',
          ''  if (route.request().method() === '' @ apos @ template_str (method params)
             @ apos @ '') {'',
          ''  route.fulfill({'',
          ''    status: '' @ String_of_number js (status params) @ '','',
          ''    contentType: '' @ apos @ contentType params @ apos @ '','',
          ''    body: '' @ apos @ body params @ apos @ '','',
          ''    headers: {'',
          ''      ...'' @ JSON_stringify js (case headers params of None \<Rightarrow> [] | Some h \<Rightarrow> h)
             @ '','',
          ''    },'',
          ''  });'',
          ''  } else {'',
          ''    route.continue();'',
          ''  }'',
          ''});'' ],
      captureSnapshot = False, waitForNetwork = False\<rparr> \<and>
   snd (clearMockApi_handle u) =
     \<lparr>code =
        [ ''// Clear Mock API response for '' @ template_str u,
          ''await page.unroute('' @ apos @ template_str u @ apos @ '');'' ],
      captureSnapshot = False, waitForNetwork = False\<rparr> \<and>
   snd (setHeaders_handle js hs) =
     \<lparr>code =
        [ ''// Set Extra HTTP Headers'',
          ''await page.setExtraHTTPHeaders('' @ JSON_stringify js hs @ '');'' ],
      captureSnapshot = False, waitForNetwork = False\<rparr> \<and>
   length (code (snd (mockApi_handle js params))) = 15 \<and>
   length (code (snd (clearMockApi_handle u))) = 2 \<and>
   length (code (snd (setHeaders_handle js hs))) = 2"
  by (simp add: mockApi_handle_def mockApi_code_def clearMockApi_handle_def
        setHeaders_handle_def)

theorem handlers_return_code_and_false_flags_witness:
  \<open>snd (mockApi_handle js0 users_rule) =
     \<lparr>code =
        [ ''// Mock API response for /api/users'',
          ''await page.route('' @ apos @ ''/api/users'' @ apos @ '', (route, request) => {'',
          ''  if (route.request().method() === '' @ apos @ ''GET'' @ apos @ '') {'',
          ''  route.fulfill({'',
          ''    status: 200,'',
          ''    contentType: '' @ apos @ ''application/json'' @ apos @ '','',
          ''    body: '' @ apos @ ''{"ok":true}'' @ apos @ '','',
          ''    headers: {'',
          ''      ...{},'',
          ''    },'',
          ''  });'',
          ''  } else {'',
          ''    route.continue();'',
          ''  }'',
          ''});'' ],
      captureSnapshot = False, waitForNetwork = False\<rparr> \<and>
   snd (clearMockApi_handle (Some ''/api/users'')) =
     \<lparr>code =
        [ ''// Clear Mock API response for /api/users'',
          ''await page.unroute('' @ apos @ ''/api/users'' @ apos @ '');'' ],
      captureSnapshot = False, waitForNetwork = False\<rparr> \<and>
   snd (setHeaders_handle js0 []) =
     \<lparr>code =
        [ ''// Set Extra HTTP Headers'',
          ''await page.setExtraHTTPHeaders({});'' ],
      captureSnapshot = False, waitForNetwork = False\<rparr>\<close>
  using handlers_return_code_and_false_flags [of js0 users_rule "Some ''/api/users''" "[]"]
  by (simp add: js0_def users_rule_def)

text \<open>
  C10: when the method parameter is absent, the third emitted line compares the request's
  method with the quoted text \<open>undefined\<close>. A request whose method is that text satisfies
  the emitted comparison, while the registered interceptor's comparison fails on it and
  the request continues: the emitted lines do not describe the registered behaviour.
\<close>

theorem mockApi_transcript_not_faithful_without_method:
  assumes "method params = None"
  shows "mockApi_code js params ! 2 =
           ''  if (route.request().method() === '' @ apos @ ''undefined'' @ apos @ '') {'' \<and>
         transcript_matches params \<lparr>req_url = u, req_method = ''undefined''\<rparr> \<and>
         \<not> strict_eq (req_method \<lparr>req_url = u, req_method = ''undefined''\<rparr>) (method params) \<and>
         mockApi_interceptor params \<lparr>req_url = u, req_method = ''undefined''\<rparr> = Continue"
  using assms by (simp add: mockApi_code_def transcript_matches_def mockApi_interceptor_def)

theorem mockApi_transcript_not_faithful_without_method_witness:
  "method x_rule = None \<and>
   transcript_matches x_rule \<lparr>req_url = ''/api/x'', req_method = ''undefined''\<rparr> \<and>
   mockApi_interceptor x_rule \<lparr>req_url = ''/api/x'', req_method = ''undefined''\<rparr> = Continue"
  using mockApi_transcript_not_faithful_without_method [of x_rule js0 "''/api/x''"]
  by (simp add: x_rule_def)

text \<open>With the method given, the emitted comparison is the registered one.\<close>

theorem transcript_matches_with_method:
  assumes "method params = Some m"
  shows "transcript_matches params req = strict_eq (req_method req) (method params)"
  using assms by (simp add: transcript_matches_def)

theorem transcript_matches_with_method_witness:
  "method users_rule = Some ''GET'' \<and>
   transcript_matches users_rule get_users \<and> strict_eq (req_method get_users) (method users_rule) \<and>
   \<not> transcript_matches users_rule post_users"
  using transcript_matches_with_method [of users_rule "''GET''" get_users]
        transcript_matches_with_method [of users_rule "''GET''" post_users]
  by (simp add: users_rule_def get_users_def post_users_def)

end
